theory Spec2Isabelle
  imports Main
begin

section \<open>The passthrough service worker \<^verbatim>\<open>static/app/sw.js\<close>\<close>

text \<open>
  The script registers three listeners on the worker's global scope:
  \<^verbatim>\<open>
  self.addEventListener("install",  (event) => { self.skipWaiting(); });
  self.addEventListener("activate", (event) => { event.waitUntil(clients.claim()); });
  self.addEventListener("fetch",    (event) => { event.respondWith(fetch(event.request)); });
  \<close>
  Everything the script does is a call of an operation of the hosting browser. The
  embedding keeps the script's control and data flow and makes the host explicit: the
  state records every host operation that was called, with its arguments and the promise
  it returned, so that a property of the script is a property of that record.
\<close>

subsection \<open>Data handled by the host\<close>

record request =
  url :: string
  http_method :: string
  origin :: string
  headers :: "(string \<times> string) list"
  body :: string

record response =
  status :: nat
  resp_headers :: "(string \<times> string) list"
  resp_body :: string

datatype js_error = TypeError string | DOMException string string

datatype js_value = Undefined | Response response

text \<open>How a promise settles: fulfilled with a value, or rejected with an error.\<close>

datatype settled = Fulfilled js_value | Rejected js_error

type_synonym pid = nat

text \<open>
  The event object the host hands to a listener. \<open>ev_id\<close> is the identity of the object
  (the receiver of \<^verbatim>\<open>event.waitUntil\<close> and \<^verbatim>\<open>event.respondWith\<close>), \<open>ev_type\<close> the
  name it is dispatched under, \<open>request\<close> the \<^verbatim>\<open>event.request\<close> property that the host
  fills for fetch events.
\<close>

record event =
  ev_id :: nat
  ev_type :: string
  request :: request

text \<open>
  The behaviour of the host-provided operations, which the script does not control: how
  the network answers a request, and how the promises of \<^verbatim>\<open>self.skipWaiting()\<close> and
  \<^verbatim>\<open>clients.claim()\<close> settle.
\<close>

record env =
  net :: "request \<Rightarrow> settled"
  skip_result :: settled
  claim_result :: settled

text \<open>A host operation as it was called: its arguments, and the promise it returned.\<close>

datatype call =
    SkipWaiting pid
  | ClientsClaim pid
  | Fetch request pid
  | WaitUntil nat pid
  | RespondWith nat pid

text \<open>The three arrow functions of the script.\<close>

datatype listener = InstallListener | ActivateListener | FetchListener

text \<open>
  The worker's global scope together with the host state it can reach: the registered
  listeners, the host operations called so far, the promises created so far with their
  settlement, and the cache storage of the origin (entries keyed by request URL).
\<close>

record sw_state =
  listeners :: "(string \<times> listener) list"
  calls :: "call list"
  settlement :: "pid \<Rightarrow> settled option"
  next_pid :: pid
  storage :: "(string \<times> response) list"

subsection \<open>Host operations\<close>

definition new_promise :: "settled \<Rightarrow> sw_state \<Rightarrow> pid \<times> sw_state" where
  "new_promise r s =
     (next_pid s,
      s\<lparr>settlement := (settlement s)(next_pid s \<mapsto> r), next_pid := Suc (next_pid s)\<rparr>)"

definition record_call :: "call \<Rightarrow> sw_state \<Rightarrow> sw_state" where
  "record_call c s = s\<lparr>calls := calls s @ [c]\<rparr>"

text \<open>
  \<^verbatim>\<open>self.skipWaiting()\<close>, \<^verbatim>\<open>clients.claim()\<close> and \<^verbatim>\<open>fetch(r)\<close> return a promise. They do
  not throw: when the operation fails, the promise it returned is rejected.
\<close>

definition skipWaiting :: "env \<Rightarrow> sw_state \<Rightarrow> pid \<times> sw_state" where
  "skipWaiting e s =
     (case new_promise (skip_result e) s of (p, s') \<Rightarrow> (p, record_call (SkipWaiting p) s'))"

definition clients_claim :: "env \<Rightarrow> sw_state \<Rightarrow> pid \<times> sw_state" where
  "clients_claim e s =
     (case new_promise (claim_result e) s of (p, s') \<Rightarrow> (p, record_call (ClientsClaim p) s'))"

definition fetch :: "env \<Rightarrow> request \<Rightarrow> sw_state \<Rightarrow> pid \<times> sw_state" where
  "fetch e r s =
     (case new_promise (net e r) s of (p, s') \<Rightarrow> (p, record_call (Fetch r p) s'))"

text \<open>\<^verbatim>\<open>event.waitUntil(p)\<close> and \<^verbatim>\<open>event.respondWith(p)\<close> return nothing.\<close>

definition waitUntil :: "event \<Rightarrow> pid \<Rightarrow> sw_state \<Rightarrow> sw_state" where
  "waitUntil ev p s = record_call (WaitUntil (ev_id ev) p) s"

definition respondWith :: "event \<Rightarrow> pid \<Rightarrow> sw_state \<Rightarrow> sw_state" where
  "respondWith ev p s = record_call (RespondWith (ev_id ev) p) s"

definition addEventListener :: "string \<Rightarrow> listener \<Rightarrow> sw_state \<Rightarrow> sw_state" where
  "addEventListener t l s = s\<lparr>listeners := listeners s @ [(t, l)]\<rparr>"

subsection \<open>The script\<close>

text \<open>\<^verbatim>\<open>(event) => { self.skipWaiting(); }\<close>: the returned promise is dropped.\<close>

definition install_handler :: "env \<Rightarrow> event \<Rightarrow> sw_state \<Rightarrow> sw_state" where
  "install_handler e ev s = (case skipWaiting e s of (p, s') \<Rightarrow> s')"

text \<open>\<^verbatim>\<open>(event) => { event.waitUntil(clients.claim()); }\<close>\<close>

definition activate_handler :: "env \<Rightarrow> event \<Rightarrow> sw_state \<Rightarrow> sw_state" where
  "activate_handler e ev s = (case clients_claim e s of (p, s') \<Rightarrow> waitUntil ev p s')"

text \<open>\<^verbatim>\<open>(event) => { event.respondWith(fetch(event.request)); }\<close>\<close>

definition fetch_handler :: "env \<Rightarrow> event \<Rightarrow> sw_state \<Rightarrow> sw_state" where
  "fetch_handler e ev s = (case fetch e (request ev) s of (p, s') \<Rightarrow> respondWith ev p s')"

fun run_listener :: "listener \<Rightarrow> env \<Rightarrow> event \<Rightarrow> sw_state \<Rightarrow> sw_state" where
  "run_listener InstallListener = install_handler"
| "run_listener ActivateListener = activate_handler"
| "run_listener FetchListener = fetch_handler"

text \<open>Evaluating the script: three registrations, in the order of the file.\<close>

definition sw_script :: "sw_state \<Rightarrow> sw_state" where
  "sw_script s =
     addEventListener ''fetch'' FetchListener
       (addEventListener ''activate'' ActivateListener
         (addEventListener ''install'' InstallListener s))"

text \<open>The listener list the script leaves behind.\<close>

definition sw_listeners :: "(string \<times> listener) list" where
  "sw_listeners =
     [(''install'', InstallListener), (''activate'', ActivateListener), (''fetch'', FetchListener)]"

subsection \<open>The host's side: starting the worker and dispatching events\<close>

text \<open>A new global scope: nothing registered, nothing called, the origin's storage as found.\<close>

definition new_scope :: "(string \<times> response) list \<Rightarrow> sw_state" where
  "new_scope st =
     \<lparr>listeners = [], calls = [], settlement = Map.empty, next_pid = 0, storage = st\<rparr>"

definition worker_start :: "(string \<times> response) list \<Rightarrow> sw_state" where
  "worker_start st = sw_script (new_scope st)"

text \<open>
  Dispatching an event runs, in registration order, every listener registered under the
  event's type; the listener list is the one found when the dispatch starts.
\<close>

definition dispatch :: "env \<Rightarrow> event \<Rightarrow> sw_state \<Rightarrow> sw_state" where
  "dispatch e ev s =
     fold (\<lambda>(t, l) s'. if t = ev_type ev then run_listener l e ev s' else s') (listeners s) s"

definition dispatch_all :: "env \<Rightarrow> event list \<Rightarrow> sw_state \<Rightarrow> sw_state" where
  "dispatch_all e evs s = fold (dispatch e) evs s"

text \<open>The worker after it was started and has handled the events \<open>evs\<close>.\<close>

definition run_worker :: "env \<Rightarrow> (string \<times> response) list \<Rightarrow> event list \<Rightarrow> sw_state" where
  "run_worker e st evs = dispatch_all e evs (worker_start st)"

text \<open>The host operations called between state \<open>s\<close> and the later state \<open>s'\<close>.\<close>

definition new_calls :: "sw_state \<Rightarrow> sw_state \<Rightarrow> call list" where
  "new_calls s s' = drop (length (calls s)) (calls s')"

text \<open>
  The host's rule for \<^verbatim>\<open>waitUntil\<close>: the lifecycle step of an event is complete once every
  promise handed to that event's \<^verbatim>\<open>waitUntil\<close> has settled. \<open>is_settled\<close> tells which
  promises have settled so far.
\<close>

fun waitUntil_args :: "nat \<Rightarrow> call list \<Rightarrow> pid list" where
  "waitUntil_args i [] = []"
| "waitUntil_args i (WaitUntil j p # cs) =
     (if j = i then p # waitUntil_args i cs else waitUntil_args i cs)"
| "waitUntil_args i (c # cs) = waitUntil_args i cs"

definition lifecycle_complete :: "(pid \<Rightarrow> bool) \<Rightarrow> event \<Rightarrow> call list \<Rightarrow> bool" where
  "lifecycle_complete is_settled ev cs = list_all is_settled (waitUntil_args (ev_id ev) cs)"

text \<open>
  The host's rule for \<^verbatim>\<open>respondWith\<close>: the page receives the settlement of the promise handed
  to the event's \<^verbatim>\<open>respondWith\<close>; when the listeners hand none, the host performs the request
  itself, as it does for a page that no worker controls.
\<close>

definition direct_request :: "env \<Rightarrow> request \<Rightarrow> settled" where
  "direct_request e r = net e r"

fun respondWith_arg :: "nat \<Rightarrow> call list \<Rightarrow> pid option" where
  "respondWith_arg i [] = None"
| "respondWith_arg i (RespondWith j p # cs) =
     (if j = i then Some p else respondWith_arg i cs)"
| "respondWith_arg i (c # cs) = respondWith_arg i cs"

definition delivered :: "env \<Rightarrow> event \<Rightarrow> sw_state \<Rightarrow> sw_state \<Rightarrow> settled option" where
  "delivered e ev s s' =
     (case respondWith_arg (ev_id ev) (new_calls s s') of
        None \<Rightarrow> Some (direct_request e (request ev))
      | Some p \<Rightarrow> settlement s' p)"

text \<open>Counting calls of one operation, and reading off what was fetched.\<close>

fun fetched_requests :: "call list \<Rightarrow> request list" where
  "fetched_requests [] = []"
| "fetched_requests (Fetch r p # cs) = r # fetched_requests cs"
| "fetched_requests (c # cs) = fetched_requests cs"


fun is_skipWaiting :: "call \<Rightarrow> bool" where
  "is_skipWaiting (SkipWaiting p) = True"
| "is_skipWaiting c = False"

fun is_claim :: "call \<Rightarrow> bool" where
  "is_claim (ClientsClaim p) = True"
| "is_claim c = False"

fun is_fetch :: "call \<Rightarrow> bool" where
  "is_fetch (Fetch r p) = True"
| "is_fetch c = False"

fun call_name :: "call \<Rightarrow> string" where
  "call_name (SkipWaiting p) = ''skipWaiting''"
| "call_name (ClientsClaim p) = ''claim''"
| "call_name (Fetch r p) = ''fetch''"
| "call_name (WaitUntil i p) = ''waitUntil''"
| "call_name (RespondWith i p) = ''respondWith''"

text \<open>How many of the events \<open>evs\<close> are dispatched under the name \<open>t\<close>.\<close>

definition count_type :: "string \<Rightarrow> event list \<Rightarrow> nat" where
  "count_type t evs = length (filter (\<lambda>ev. ev_type ev = t) evs)"

text \<open>Concrete inputs used to instantiate the theorems below.\<close>

definition req_a :: request where
  "req_a = \<lparr>url = ''/api/a'', http_method = ''GET'', origin = ''https://school.example'',
            headers = [], body = ''''\<rparr>"

definition req_b :: request where
  "req_b = \<lparr>url = ''/api/b'', http_method = ''POST'', origin = ''https://other.example'',
            headers = [(''content-type'', ''application/json'')], body = ''{}''\<rparr>"

definition resp_ok :: response where
  "resp_ok = \<lparr>status = 200, resp_headers = [], resp_body = ''ok''\<rparr>"

definition env_a :: env where
  "env_a = \<lparr>net = (\<lambda>r. if url r = ''/api/a'' then Fulfilled (Response resp_ok)
                        else Rejected (TypeError ''Failed to fetch'')),
            skip_result = Fulfilled Undefined,
            claim_result = Rejected (DOMException ''InvalidStateError'' ''not active'')\<rparr>"

definition env_b :: env where
  "env_b = \<lparr>net = (\<lambda>r. Rejected (TypeError ''Failed to fetch'')),
            skip_result = Rejected (DOMException ''InvalidStateError'' ''no worker''),
            claim_result = Fulfilled Undefined\<rparr>"

definition install_ev :: event where
  "install_ev = \<lparr>ev_id = 1, ev_type = ''install'', request = req_a\<rparr>"

definition activate_ev :: event where
  "activate_ev = \<lparr>ev_id = 2, ev_type = ''activate'', request = req_a\<rparr>"

definition activate_ev' :: event where
  "activate_ev' = \<lparr>ev_id = 5, ev_type = ''activate'', request = req_a\<rparr>"

definition fetch_ev_a :: event where
  "fetch_ev_a = \<lparr>ev_id = 3, ev_type = ''fetch'', request = req_a\<rparr>"

definition fetch_ev_b :: event where
  "fetch_ev_b = \<lparr>ev_id = 4, ev_type = ''fetch'', request = req_b\<rparr>"

definition fetch_ev_a' :: event where
  "fetch_ev_a' = \<lparr>ev_id = 6, ev_type = ''fetch'', request = req_a\<rparr>"

definition env_c :: env where
  "env_c = \<lparr>net = (\<lambda>r. Fulfilled (Response resp_ok)),
            skip_result = Rejected (DOMException ''InvalidStateError'' ''no worker''),
            claim_result = Rejected (DOMException ''InvalidStateError'' ''not active'')\<rparr>"

section \<open>Properties\<close>

subsection \<open>What each handler does to the state\<close>

lemma install_handler_eq:
  "install_handler e ev s =
     s\<lparr>calls := calls s @ [SkipWaiting (next_pid s)],
       settlement := (settlement s)(next_pid s \<mapsto> skip_result e),
       next_pid := Suc (next_pid s)\<rparr>"
  by (simp add: install_handler_def skipWaiting_def new_promise_def record_call_def)

lemma activate_handler_eq:
  "activate_handler e ev s =
     s\<lparr>calls := calls s @ [ClientsClaim (next_pid s), WaitUntil (ev_id ev) (next_pid s)],
       settlement := (settlement s)(next_pid s \<mapsto> claim_result e),
       next_pid := Suc (next_pid s)\<rparr>"
  by (simp add: activate_handler_def clients_claim_def waitUntil_def new_promise_def
      record_call_def)

lemma fetch_handler_eq:
  "fetch_handler e ev s =
     s\<lparr>calls := calls s @ [Fetch (request ev) (next_pid s), RespondWith (ev_id ev) (next_pid s)],
       settlement := (settlement s)(next_pid s \<mapsto> net e (request ev)),
       next_pid := Suc (next_pid s)\<rparr>"
  by (simp add: fetch_handler_def fetch_def respondWith_def new_promise_def record_call_def)

lemma listeners_run_listener [simp]: "listeners (run_listener l e ev s) = listeners s"
  by (cases l) (simp_all add: install_handler_eq activate_handler_eq fetch_handler_eq)

lemma storage_run_listener [simp]: "storage (run_listener l e ev s) = storage s"
  by (cases l) (simp_all add: install_handler_eq activate_handler_eq fetch_handler_eq)

lemma listeners_worker_start [simp]: "listeners (worker_start st) = sw_listeners"
  by (simp add: worker_start_def sw_script_def addEventListener_def new_scope_def
      sw_listeners_def)

lemma storage_worker_start [simp]: "storage (worker_start st) = st"
  by (simp add: worker_start_def sw_script_def addEventListener_def new_scope_def)

lemma fold_listeners_frame:
  "listeners (fold (\<lambda>(t, l) s'. if t = ty then run_listener l e ev s' else s') ls s) = listeners s
   \<and> storage (fold (\<lambda>(t, l) s'. if t = ty then run_listener l e ev s' else s') ls s) = storage s"
  by (induction ls arbitrary: s) (auto split: prod.splits)

lemma listeners_dispatch [simp]: "listeners (dispatch e ev s) = listeners s"
  by (simp add: dispatch_def fold_listeners_frame)

lemma storage_dispatch [simp]: "storage (dispatch e ev s) = storage s"
  by (simp add: dispatch_def fold_listeners_frame)

lemma listeners_dispatch_all [simp]: "listeners (dispatch_all e evs s) = listeners s"
  unfolding dispatch_all_def by (induction evs arbitrary: s) simp_all

lemma storage_dispatch_all [simp]: "storage (dispatch_all e evs s) = storage s"
  unfolding dispatch_all_def by (induction evs arbitrary: s) simp_all

lemma listeners_run_worker [simp]: "listeners (run_worker e st evs) = sw_listeners"
  by (simp add: run_worker_def)

text \<open>With the script's listeners registered, an event reaches exactly its own handler.\<close>

lemma dispatch_install:
  "listeners s = sw_listeners \<Longrightarrow> ev_type ev = ''install'' \<Longrightarrow>
   dispatch e ev s = install_handler e ev s"
  by (simp add: dispatch_def sw_listeners_def)

lemma dispatch_activate:
  "listeners s = sw_listeners \<Longrightarrow> ev_type ev = ''activate'' \<Longrightarrow>
   dispatch e ev s = activate_handler e ev s"
  by (simp add: dispatch_def sw_listeners_def)

lemma dispatch_fetch:
  "listeners s = sw_listeners \<Longrightarrow> ev_type ev = ''fetch'' \<Longrightarrow>
   dispatch e ev s = fetch_handler e ev s"
  by (simp add: dispatch_def sw_listeners_def)

lemma dispatch_other:
  "listeners s = sw_listeners \<Longrightarrow> ev_type ev \<noteq> ''install'' \<Longrightarrow> ev_type ev \<noteq> ''activate'' \<Longrightarrow>
   ev_type ev \<noteq> ''fetch'' \<Longrightarrow> dispatch e ev s = s"
  by (auto simp add: dispatch_def sw_listeners_def)

lemma new_calls_install:
  "new_calls s (install_handler e ev s) = [SkipWaiting (next_pid s)]"
  by (simp add: new_calls_def install_handler_eq)

lemma new_calls_activate:
  "new_calls s (activate_handler e ev s) =
     [ClientsClaim (next_pid s), WaitUntil (ev_id ev) (next_pid s)]"
  by (simp add: new_calls_def activate_handler_eq)

lemma new_calls_fetch:
  "new_calls s (fetch_handler e ev s) =
     [Fetch (request ev) (next_pid s), RespondWith (ev_id ev) (next_pid s)]"
  by (simp add: new_calls_def fetch_handler_eq)

lemma delivered_fetch:
  "delivered e ev s (fetch_handler e ev s) = Some (net e (request ev))"
  by (simp add: delivered_def new_calls_fetch) (simp add: fetch_handler_eq)

subsection \<open>The install handler\<close>

text \<open>
  C4. For every install event, at any point of the worker's life, the handler calls
  \<^verbatim>\<open>skipWaiting\<close> exactly once, inside the dispatch of the event, and does nothing else: the
  only host operation called is that one, and the state changes only by the record of
  that call and of the promise it returned.
\<close>

theorem install_signals_skip_wait_once:
  assumes "ev_type ev = ''install''"
  shows "let s = run_worker e st evs; s' = dispatch e ev s; p = next_pid s in
           new_calls s s' = [SkipWaiting p]
         \<and> length (filter is_skipWaiting (new_calls s s')) = 1
         \<and> s' = s\<lparr>calls := calls s @ [SkipWaiting p],
                   settlement := (settlement s)(p \<mapsto> skip_result e),
                   next_pid := Suc p\<rparr>"
  using assms
  by (simp add: Let_def dispatch_install new_calls_install) (simp add: install_handler_eq)

theorem install_signals_skip_wait_once_witness:
  "ev_type install_ev = ''install''
   \<and> new_calls (run_worker env_a [] [fetch_ev_a])
        (dispatch env_a install_ev (run_worker env_a [] [fetch_ev_a])) = [SkipWaiting 1]
   \<and> length (filter is_skipWaiting (new_calls (run_worker env_a [] [fetch_ev_a])
        (dispatch env_a install_ev (run_worker env_a [] [fetch_ev_a])))) = 1"
proof -
  have t: "ev_type install_ev = ''install''"
    by (simp add: install_ev_def)
  have n: "next_pid (run_worker env_a [] [fetch_ev_a]) = 1"
    by (simp add: run_worker_def dispatch_all_def dispatch_def fetch_ev_a_def
        fetch_handler_eq worker_start_def sw_script_def addEventListener_def new_scope_def)
  show ?thesis
    using install_signals_skip_wait_once [OF t, of env_a "[]" "[fetch_ev_a]", unfolded Let_def n] t
    by blast
qed

text \<open>
  C10. The install handler hands nothing to \<^verbatim>\<open>waitUntil\<close> and drops the promise of
  \<^verbatim>\<open>skipWaiting\<close>: the lifecycle step of an install event is complete whatever has settled,
  also when nothing has, while the step of an activate event is not complete before the
  promise of \<^verbatim>\<open>claim\<close> has settled.
\<close>

theorem install_completion_not_deferred:
  assumes "ev_type ev = ''install''" and "ev_type ev' = ''activate''"
  shows "let s = run_worker e st evs; s' = dispatch e ev s; s'' = dispatch e ev' s in
           waitUntil_args (ev_id ev) (new_calls s s') = []
         \<and> (\<forall>i. WaitUntil i (next_pid s) \<notin> set (new_calls s s'))
         \<and> (\<forall>is_settled. lifecycle_complete is_settled ev (new_calls s s'))
         \<and> lifecycle_complete (\<lambda>p. False) ev (new_calls s s')
         \<and> \<not> lifecycle_complete (\<lambda>p. False) ev' (new_calls s s'')"
  using assms
  by (simp add: Let_def dispatch_install dispatch_activate new_calls_install
      new_calls_activate lifecycle_complete_def)

theorem install_completion_not_deferred_witness:
  "ev_type install_ev = ''install'' \<and> ev_type activate_ev = ''activate''
   \<and> lifecycle_complete (\<lambda>p. False) install_ev
        (new_calls (run_worker env_b [] []) (dispatch env_b install_ev (run_worker env_b [] [])))
   \<and> \<not> lifecycle_complete (\<lambda>p. False) activate_ev
        (new_calls (run_worker env_b [] []) (dispatch env_b activate_ev (run_worker env_b [] [])))"
proof -
  have t: "ev_type install_ev = ''install''"
    by (simp add: install_ev_def)
  have t': "ev_type activate_ev = ''activate''"
    by (simp add: activate_ev_def)
  show ?thesis
    using install_completion_not_deferred [OF t t', of env_b "[]" "[]"] t t'
    by (simp add: Let_def)
qed

subsection \<open>The activate handler\<close>

text \<open>
  C3. For every activate event the handler calls \<^verbatim>\<open>clients.claim()\<close> exactly once and hands
  the promise that call returned to the event's \<^verbatim>\<open>waitUntil\<close>; the lifecycle step of the
  event is complete exactly when that promise has settled, whether it fulfils or rejects.
\<close>

theorem activate_claims_once_and_waits:
  assumes "ev_type ev = ''activate''"
  shows "let s = run_worker e st evs; s' = dispatch e ev s; p = next_pid s in
           new_calls s s' = [ClientsClaim p, WaitUntil (ev_id ev) p]
         \<and> length (filter is_claim (new_calls s s')) = 1
         \<and> settlement s' p = Some (claim_result e)
         \<and> waitUntil_args (ev_id ev) (new_calls s s') = [p]
         \<and> (\<forall>is_settled. lifecycle_complete is_settled ev (new_calls s s') = is_settled p)"
  using assms
  by (simp add: Let_def dispatch_activate new_calls_activate lifecycle_complete_def)
     (simp add: activate_handler_eq)

theorem activate_claims_once_and_waits_witness:
  "ev_type activate_ev = ''activate''
   \<and> new_calls (run_worker env_a [] [install_ev])
        (dispatch env_a activate_ev (run_worker env_a [] [install_ev]))
       = [ClientsClaim 1, WaitUntil 2 1]
   \<and> settlement (dispatch env_a activate_ev (run_worker env_a [] [install_ev])) 1
       = Some (Rejected (DOMException ''InvalidStateError'' ''not active''))
   \<and> \<not> lifecycle_complete (\<lambda>p. p < 1) activate_ev
        (new_calls (run_worker env_a [] [install_ev])
           (dispatch env_a activate_ev (run_worker env_a [] [install_ev])))
   \<and> lifecycle_complete (\<lambda>p. p < 2) activate_ev
        (new_calls (run_worker env_a [] [install_ev])
           (dispatch env_a activate_ev (run_worker env_a [] [install_ev])))"
proof -
  have t: "ev_type activate_ev = ''activate''"
    by (simp add: activate_ev_def)
  have n: "next_pid (run_worker env_a [] [install_ev]) = 1"
    by (simp add: run_worker_def dispatch_all_def dispatch_def install_ev_def
        install_handler_eq worker_start_def sw_script_def addEventListener_def new_scope_def)
  have i: "ev_id activate_ev = 2" and c: "claim_result env_a
      = Rejected (DOMException ''InvalidStateError'' ''not active'')"
    by (simp_all add: activate_ev_def env_a_def)
  show ?thesis
    using activate_claims_once_and_waits [OF t, of env_a "[]" "[install_ev]"] t n i c
    by (simp add: Let_def lifecycle_complete_def)
qed

subsection \<open>The fetch handler\<close>

text \<open>
  C1. For every fetch event carrying request \<open>R\<close> the handler makes exactly one network call,
  with \<open>R\<close> itself, and hands the promise of that call to the event's \<^verbatim>\<open>respondWith\<close>
  unchanged: what the page receives is what a direct request for \<open>R\<close> gives on the same
  network.
\<close>

theorem fetch_forwards_unchanged:
  assumes "ev_type ev = ''fetch''"
  shows "let s = run_worker e st evs; s' = dispatch e ev s; p = next_pid s in
           new_calls s s' = [Fetch (request ev) p, RespondWith (ev_id ev) p]
         \<and> fetched_requests (new_calls s s') = [request ev]
         \<and> length (filter is_fetch (new_calls s s')) = 1
         \<and> settlement s' p = Some (net e (request ev))
         \<and> delivered e ev s s' = Some (direct_request e (request ev))"
  using assms
  by (simp add: Let_def dispatch_fetch new_calls_fetch delivered_fetch direct_request_def)
     (simp add: fetch_handler_eq)

theorem fetch_forwards_unchanged_witness:
  "ev_type fetch_ev_a = ''fetch''
   \<and> new_calls (run_worker env_a [] [install_ev])
        (dispatch env_a fetch_ev_a (run_worker env_a [] [install_ev]))
       = [Fetch req_a 1, RespondWith 3 1]
   \<and> delivered env_a fetch_ev_a (run_worker env_a [] [install_ev])
        (dispatch env_a fetch_ev_a (run_worker env_a [] [install_ev]))
       = Some (Fulfilled (Response resp_ok))"
proof -
  have t: "ev_type fetch_ev_a = ''fetch''"
    by (simp add: fetch_ev_a_def)
  have n: "next_pid (run_worker env_a [] [install_ev]) = 1"
    by (simp add: run_worker_def dispatch_all_def dispatch_def install_ev_def
        install_handler_eq worker_start_def sw_script_def addEventListener_def new_scope_def)
  have r: "request fetch_ev_a = req_a" "ev_id fetch_ev_a = 3"
    "direct_request env_a req_a = Fulfilled (Response resp_ok)"
    by (simp_all add: fetch_ev_a_def direct_request_def env_a_def req_a_def)
  show ?thesis
    using fetch_forwards_unchanged [OF t, of env_a "[]" "[install_ev]"] t n r
    by (simp add: Let_def)
qed

text \<open>
  C2. When the network call of a fetch event fails, the page receives that very failure,
  the one a direct request gives: the promise handed to \<^verbatim>\<open>respondWith\<close> is the promise of
  the network call itself, no other promise is created, and no other host operation is
  called.
\<close>

theorem fetch_failure_surfaces_unchanged:
  assumes "ev_type ev = ''fetch''" and "net e (request ev) = Rejected err"
  shows "let s = run_worker e st evs; s' = dispatch e ev s; p = next_pid s in
           delivered e ev s s' = Some (Rejected err)
         \<and> direct_request e (request ev) = Rejected err
         \<and> respondWith_arg (ev_id ev) (new_calls s s') = Some p
         \<and> settlement s' p = Some (Rejected err)
         \<and> next_pid s' = Suc p
         \<and> map call_name (new_calls s s') = [''fetch'', ''respondWith'']"
  using assms
  by (simp add: Let_def dispatch_fetch new_calls_fetch delivered_fetch direct_request_def)
     (simp add: fetch_handler_eq)

theorem fetch_failure_surfaces_unchanged_witness:
  "ev_type fetch_ev_b = ''fetch''
   \<and> net env_a (request fetch_ev_b) = Rejected (TypeError ''Failed to fetch'')
   \<and> delivered env_a fetch_ev_b (run_worker env_a [] [])
        (dispatch env_a fetch_ev_b (run_worker env_a [] []))
       = Some (Rejected (TypeError ''Failed to fetch''))"
proof -
  have t: "ev_type fetch_ev_b = ''fetch''"
    by (simp add: fetch_ev_b_def)
  have f: "net env_a (request fetch_ev_b) = Rejected (TypeError ''Failed to fetch'')"
    by (simp add: fetch_ev_b_def env_a_def req_b_def)
  show ?thesis
    using fetch_failure_surfaces_unchanged [OF t f, of "[]" "[]"] t f
    by (simp add: Let_def)
qed

text \<open>
  C7. One rule for every intercepted request: whatever the method, origin and headers of
  two fetch events, the handler calls the same operations in the same order, once each
  (the network call is not repeated, also when it fails), forwards the request as it is,
  delivers what the network gave, and leaves the cache storage as it was.
\<close>

theorem fetch_rule_is_unconditional:
  assumes "ev_type ev = ''fetch''" and "ev_type ev' = ''fetch''"
  shows "let s = run_worker e st evs; s1 = dispatch e ev s; s2 = dispatch e ev' s in
           map call_name (new_calls s s1) = [''fetch'', ''respondWith'']
         \<and> map call_name (new_calls s s1) = map call_name (new_calls s s2)
         \<and> fetched_requests (new_calls s s1) = [request ev]
         \<and> fetched_requests (new_calls s s2) = [request ev']
         \<and> delivered e ev s s1 = Some (net e (request ev))
         \<and> delivered e ev' s s2 = Some (net e (request ev'))
         \<and> storage s1 = storage s \<and> storage s2 = storage s"
  using assms
  by (simp add: Let_def dispatch_fetch new_calls_fetch delivered_fetch)

theorem fetch_rule_is_unconditional_witness:
  "ev_type fetch_ev_a = ''fetch'' \<and> ev_type fetch_ev_b = ''fetch''
   \<and> http_method (request fetch_ev_a) \<noteq> http_method (request fetch_ev_b)
   \<and> origin (request fetch_ev_a) \<noteq> origin (request fetch_ev_b)
   \<and> headers (request fetch_ev_a) \<noteq> headers (request fetch_ev_b)
   \<and> map call_name (new_calls (run_worker env_a [] [])
        (dispatch env_a fetch_ev_a (run_worker env_a [] [])))
     = map call_name (new_calls (run_worker env_a [] [])
        (dispatch env_a fetch_ev_b (run_worker env_a [] [])))
   \<and> fetched_requests (new_calls (run_worker env_a [] [])
        (dispatch env_a fetch_ev_b (run_worker env_a [] []))) = [request fetch_ev_b]"
proof -
  have t: "ev_type fetch_ev_a = ''fetch''" and t': "ev_type fetch_ev_b = ''fetch''"
    by (simp_all add: fetch_ev_a_def fetch_ev_b_def)
  have d: "http_method (request fetch_ev_a) \<noteq> http_method (request fetch_ev_b)"
    "origin (request fetch_ev_a) \<noteq> origin (request fetch_ev_b)"
    "headers (request fetch_ev_a) \<noteq> headers (request fetch_ev_b)"
    by (simp_all add: fetch_ev_a_def fetch_ev_b_def req_a_def req_b_def)
  show ?thesis
    using fetch_rule_is_unconditional [OF t t', of env_a "[]" "[]", unfolded Let_def] t t' d
    by blast
qed

subsection \<open>Across events\<close>

lemma dispatch_cases:
  "listeners s = sw_listeners \<Longrightarrow>
   dispatch e ev s =
     (if ev_type ev = ''install'' then install_handler e ev s
      else if ev_type ev = ''activate'' then activate_handler e ev s
      else if ev_type ev = ''fetch'' then fetch_handler e ev s
      else s)"
  by (simp add: dispatch_def sw_listeners_def)

lemma count_dispatch:
  assumes "listeners s = sw_listeners"
  shows "length (filter is_skipWaiting (calls (dispatch e ev s))) =
           length (filter is_skipWaiting (calls s)) + (if ev_type ev = ''install'' then 1 else 0)"
    and "length (filter is_claim (calls (dispatch e ev s))) =
           length (filter is_claim (calls s)) + (if ev_type ev = ''activate'' then 1 else 0)"
    and "length (filter is_fetch (calls (dispatch e ev s))) =
           length (filter is_fetch (calls s)) + (if ev_type ev = ''fetch'' then 1 else 0)"
  using assms
  by (simp_all add: dispatch_cases install_handler_eq activate_handler_eq fetch_handler_eq)

lemma count_dispatch_all:
  assumes "listeners s = sw_listeners"
  shows "length (filter is_skipWaiting (calls (dispatch_all e evs s))) =
           length (filter is_skipWaiting (calls s)) + count_type ''install'' evs
       \<and> length (filter is_claim (calls (dispatch_all e evs s))) =
           length (filter is_claim (calls s)) + count_type ''activate'' evs
       \<and> length (filter is_fetch (calls (dispatch_all e evs s))) =
           length (filter is_fetch (calls s)) + count_type ''fetch'' evs"
  using assms
proof (induction evs arbitrary: s)
  case Nil
  then show ?case by (simp add: dispatch_all_def count_type_def)
next
  case (Cons ev evs)
  have l: "listeners (dispatch e ev s) = sw_listeners"
    using Cons.prems by simp
  have step: "dispatch_all e (ev # evs) s = dispatch_all e evs (dispatch e ev s)"
    by (simp add: dispatch_all_def)
  show ?case
    unfolding step
    using Cons.IH [OF l] count_dispatch [OF Cons.prems, of e ev]
    by (simp add: count_type_def)
qed

lemma calls_worker_start [simp]: "calls (worker_start st) = []"
  by (simp add: worker_start_def sw_script_def addEventListener_def new_scope_def)

text \<open>
  C5. Whatever events the worker has handled, and however many, it has called
  \<^verbatim>\<open>skipWaiting\<close> once per install event and \<^verbatim>\<open>clients.claim()\<close> once per activate event; its
  listeners are the three the script registered, and a further install or activate event
  is answered by the same calls as the first one.
\<close>

theorem repeated_cycles_do_not_accumulate:
  "listeners (run_worker e st evs) = listeners (worker_start st)
   \<and> length (listeners (run_worker e st evs)) = 3
   \<and> length (filter is_skipWaiting (calls (run_worker e st evs))) = count_type ''install'' evs
   \<and> length (filter is_claim (calls (run_worker e st evs))) = count_type ''activate'' evs
   \<and> map call_name (new_calls (run_worker e st evs)
        (dispatch e (ev\<lparr>ev_type := ''install''\<rparr>) (run_worker e st evs)))
     = [''skipWaiting'']
   \<and> map call_name (new_calls (run_worker e st evs)
        (dispatch e (ev\<lparr>ev_type := ''activate''\<rparr>) (run_worker e st evs)))
     = [''claim'', ''waitUntil'']
   \<and> storage (run_worker e st evs) = storage (worker_start st)"
proof -
  have c: "length (filter is_skipWaiting (calls (run_worker e st evs))) = count_type ''install'' evs"
    "length (filter is_claim (calls (run_worker e st evs))) = count_type ''activate'' evs"
    using count_dispatch_all [of "worker_start st" e evs] by (simp_all add: run_worker_def)
  have l: "listeners (run_worker e st evs) = listeners (worker_start st)"
    "length (listeners (run_worker e st evs)) = 3"
    by (simp_all add: sw_listeners_def)
  have n: "map call_name (new_calls (run_worker e st evs)
        (dispatch e (ev\<lparr>ev_type := ''install''\<rparr>) (run_worker e st evs))) = [''skipWaiting'']"
    "map call_name (new_calls (run_worker e st evs)
        (dispatch e (ev\<lparr>ev_type := ''activate''\<rparr>) (run_worker e st evs)))
       = [''claim'', ''waitUntil'']"
    by (simp_all add: dispatch_install dispatch_activate new_calls_install new_calls_activate)
  have s: "storage (run_worker e st evs) = storage (worker_start st)"
    by (simp add: run_worker_def)
  from c l n s show ?thesis by blast
qed

text \<open>
  C6. After any events, fetch events among them, the cache storage of the origin is what
  it was when the worker started: no entry was added under any URL, and no listener
  changes the storage or the worker's listeners, from any state.
\<close>

theorem no_storage_created:
  "storage (run_worker e st evs) = st
   \<and> map_of (storage (run_worker e st evs)) (url r) = map_of st (url r)
   \<and> storage (run_listener l e ev s) = storage s
   \<and> listeners (run_listener l e ev s) = listeners s"
  by (simp add: run_worker_def)

subsection \<open>Failures of the lifecycle operations\<close>

text \<open>
  C8. A failure of \<^verbatim>\<open>skipWaiting\<close> or of \<^verbatim>\<open>clients.claim()\<close> is the rejection of the promise
  the operation returned. Neither handler handles it: the install handler calls nothing but
  \<^verbatim>\<open>skipWaiting\<close>, so the rejected promise is left as it is; the activate handler hands the
  rejected promise itself to \<^verbatim>\<open>waitUntil\<close>; and in both no second promise (as a handler
  attached to the first would create) comes into being.
\<close>

theorem lifecycle_failures_not_handled:
  "(ev_type ev = ''install'' \<and> skip_result e = Rejected err \<longrightarrow>
      (let s = run_worker e st evs; s' = dispatch e ev s; p = next_pid s in
         new_calls s s' = [SkipWaiting p]
       \<and> settlement s' p = Some (Rejected err)
       \<and> next_pid s' = Suc p))
   \<and> (ev_type ev = ''activate'' \<and> claim_result e = Rejected err \<longrightarrow>
      (let s = run_worker e st evs; s' = dispatch e ev s; p = next_pid s in
         new_calls s s' = [ClientsClaim p, WaitUntil (ev_id ev) p]
       \<and> settlement s' p = Some (Rejected err)
       \<and> next_pid s' = Suc p))"
proof (intro conjI impI)
  assume a: "ev_type ev = ''install'' \<and> skip_result e = Rejected err"
  then have d: "dispatch e ev (run_worker e st evs) = install_handler e ev (run_worker e st evs)"
    by (simp add: dispatch_install)
  show "let s = run_worker e st evs; s' = dispatch e ev s; p = next_pid s in
         new_calls s s' = [SkipWaiting p]
       \<and> settlement s' p = Some (Rejected err)
       \<and> next_pid s' = Suc p"
    using a unfolding Let_def d new_calls_install by (simp add: install_handler_eq)
next
  assume a: "ev_type ev = ''activate'' \<and> claim_result e = Rejected err"
  then have d: "dispatch e ev (run_worker e st evs) = activate_handler e ev (run_worker e st evs)"
    by (simp add: dispatch_activate)
  show "let s = run_worker e st evs; s' = dispatch e ev s; p = next_pid s in
         new_calls s s' = [ClientsClaim p, WaitUntil (ev_id ev) p]
       \<and> settlement s' p = Some (Rejected err)
       \<and> next_pid s' = Suc p"
    using a unfolding Let_def d new_calls_activate by (simp add: activate_handler_eq)
qed

theorem lifecycle_failures_not_handled_witness:
  "ev_type install_ev = ''install''
   \<and> skip_result env_c = Rejected (DOMException ''InvalidStateError'' ''no worker'')
   \<and> ev_type activate_ev = ''activate''
   \<and> claim_result env_c = Rejected (DOMException ''InvalidStateError'' ''not active'')
   \<and> settlement (dispatch env_c install_ev (run_worker env_c [] []))
        (next_pid (run_worker env_c [] []))
       = Some (Rejected (DOMException ''InvalidStateError'' ''no worker''))
   \<and> new_calls (run_worker env_c [] []) (dispatch env_c install_ev (run_worker env_c [] []))
       = [SkipWaiting (next_pid (run_worker env_c [] []))]
   \<and> settlement (dispatch env_c activate_ev (run_worker env_c [] []))
        (next_pid (run_worker env_c [] []))
       = Some (Rejected (DOMException ''InvalidStateError'' ''not active''))
   \<and> new_calls (run_worker env_c [] []) (dispatch env_c activate_ev (run_worker env_c [] []))
       = [ClientsClaim (next_pid (run_worker env_c [] [])),
          WaitUntil (ev_id activate_ev) (next_pid (run_worker env_c [] []))]"
proof -
  have i: "ev_type install_ev = ''install''
      \<and> skip_result env_c = Rejected (DOMException ''InvalidStateError'' ''no worker'')"
    by (simp add: install_ev_def env_c_def)
  have a: "ev_type activate_ev = ''activate''
      \<and> claim_result env_c = Rejected (DOMException ''InvalidStateError'' ''not active'')"
    by (simp add: activate_ev_def env_c_def)
  note th1 = lifecycle_failures_not_handled [of install_ev env_c
      "DOMException ''InvalidStateError'' ''no worker''" "[]" "[]", unfolded Let_def]
  note th2 = lifecycle_failures_not_handled [of activate_ev env_c
      "DOMException ''InvalidStateError'' ''not active''" "[]" "[]", unfolded Let_def]
  from th1 i have 1: "new_calls (run_worker env_c [] [])
        (dispatch env_c install_ev (run_worker env_c [] []))
       = [SkipWaiting (next_pid (run_worker env_c [] []))]
     \<and> settlement (dispatch env_c install_ev (run_worker env_c [] []))
        (next_pid (run_worker env_c [] []))
       = Some (Rejected (DOMException ''InvalidStateError'' ''no worker''))"
    by blast
  from th2 a have 2: "new_calls (run_worker env_c [] [])
        (dispatch env_c activate_ev (run_worker env_c [] []))
       = [ClientsClaim (next_pid (run_worker env_c [] [])),
          WaitUntil (ev_id activate_ev) (next_pid (run_worker env_c [] []))]
     \<and> settlement (dispatch env_c activate_ev (run_worker env_c [] []))
        (next_pid (run_worker env_c [] []))
       = Some (Rejected (DOMException ''InvalidStateError'' ''not active''))"
    by blast
  from i a 1 2 show ?thesis by blast
qed

subsection \<open>What the handlers read of their event\<close>

text \<open>
  C9, as stated: the install and the activate handler ignore their event entirely, and the
  fetch handler depends on \<^verbatim>\<open>event.request\<close> only. This fails: the activate handler calls
  \<^verbatim>\<open>waitUntil\<close> on the event it was given, and the fetch handler \<^verbatim>\<open>respondWith\<close>, so two
  events that differ in identity only are handled differently.
\<close>

theorem handlers_ignore_event_counterexample:
  "run_listener ActivateListener env_a activate_ev (worker_start [])
     \<noteq> run_listener ActivateListener env_a activate_ev' (worker_start [])
   \<and> request fetch_ev_a = request fetch_ev_a'
   \<and> run_listener FetchListener env_a fetch_ev_a (worker_start [])
     \<noteq> run_listener FetchListener env_a fetch_ev_a' (worker_start [])"
proof -
  have "calls (activate_handler env_a activate_ev (worker_start []))
      \<noteq> calls (activate_handler env_a activate_ev' (worker_start []))"
    by (simp add: activate_handler_eq activate_ev_def activate_ev'_def)
  then have 1: "activate_handler env_a activate_ev (worker_start [])
      \<noteq> activate_handler env_a activate_ev' (worker_start [])"
    by auto
  have "calls (fetch_handler env_a fetch_ev_a (worker_start []))
      \<noteq> calls (fetch_handler env_a fetch_ev_a' (worker_start []))"
    by (simp add: fetch_handler_eq fetch_ev_a_def fetch_ev_a'_def)
  then have 2: "fetch_handler env_a fetch_ev_a (worker_start [])
      \<noteq> fetch_handler env_a fetch_ev_a' (worker_start [])"
    by auto
  have 3: "request fetch_ev_a = request fetch_ev_a'"
    by (simp add: fetch_ev_a_def fetch_ev_a'_def)
  from 1 2 3 show ?thesis by simp
qed

text \<open>
  C9, amended. Against the same host operations every handler is a function of what it
  reads: the install handler of nothing of its event; the activate handler of the
  identity of its event only, which it uses as the receiver of \<^verbatim>\<open>waitUntil\<close>, while the
  operations it calls and the promises it creates are the same for any two events; the
  fetch handler of \<^verbatim>\<open>event.request\<close> and of the identity of its event, which it uses as the
  receiver of \<^verbatim>\<open>respondWith\<close>, and two events with equal requests are answered by the same
  response.
\<close>

theorem handlers_depend_on_event_as_receiver_only:
  "install_handler e ev s = install_handler e ev' s
   \<and> (ev_id ev = ev_id ev' \<longrightarrow> activate_handler e ev s = activate_handler e ev' s)
   \<and> map call_name (new_calls s (activate_handler e ev s))
       = map call_name (new_calls s (activate_handler e ev' s))
   \<and> settlement (activate_handler e ev s) = settlement (activate_handler e ev' s)
   \<and> (request ev = request ev' \<longrightarrow>
        delivered e ev s (fetch_handler e ev s) = delivered e ev' s (fetch_handler e ev' s)
      \<and> settlement (fetch_handler e ev s) = settlement (fetch_handler e ev' s)
      \<and> fetched_requests (new_calls s (fetch_handler e ev s))
          = fetched_requests (new_calls s (fetch_handler e ev' s)))
   \<and> (request ev = request ev' \<and> ev_id ev = ev_id ev' \<longrightarrow>
        fetch_handler e ev s = fetch_handler e ev' s)"
  by (simp add: new_calls_install new_calls_activate new_calls_fetch delivered_fetch)
     (simp add: install_handler_eq activate_handler_eq fetch_handler_eq)

theorem handlers_depend_on_event_as_receiver_only_witness:
  "ev_id activate_ev = ev_id (activate_ev\<lparr>request := req_b\<rparr>)
   \<and> activate_handler env_a activate_ev (worker_start [])
       = activate_handler env_a (activate_ev\<lparr>request := req_b\<rparr>) (worker_start [])
   \<and> request fetch_ev_a = request fetch_ev_a'
   \<and> delivered env_a fetch_ev_a (worker_start [])
        (fetch_handler env_a fetch_ev_a (worker_start []))
       = delivered env_a fetch_ev_a' (worker_start [])
        (fetch_handler env_a fetch_ev_a' (worker_start []))
   \<and> request fetch_ev_a = request (fetch_ev_a\<lparr>ev_type := ''sync''\<rparr>)
   \<and> ev_id fetch_ev_a = ev_id (fetch_ev_a\<lparr>ev_type := ''sync''\<rparr>)
   \<and> fetch_handler env_a fetch_ev_a (worker_start [])
       = fetch_handler env_a (fetch_ev_a\<lparr>ev_type := ''sync''\<rparr>) (worker_start [])"
proof -
  have 1: "ev_id activate_ev = ev_id (activate_ev\<lparr>request := req_b\<rparr>)"
    by simp
  have 2: "request fetch_ev_a = request fetch_ev_a'"
    by (simp add: fetch_ev_a_def fetch_ev_a'_def)
  have 3: "request fetch_ev_a = request (fetch_ev_a\<lparr>ev_type := ''sync''\<rparr>)
      \<and> ev_id fetch_ev_a = ev_id (fetch_ev_a\<lparr>ev_type := ''sync''\<rparr>)"
    by simp
  note a = handlers_depend_on_event_as_receiver_only
      [of env_a activate_ev "worker_start []" "activate_ev\<lparr>request := req_b\<rparr>"]
  note b = handlers_depend_on_event_as_receiver_only
      [of env_a fetch_ev_a "worker_start []" fetch_ev_a']
  note c = handlers_depend_on_event_as_receiver_only
      [of env_a fetch_ev_a "worker_start []" "fetch_ev_a\<lparr>ev_type := ''sync''\<rparr>"]
  from a 1 have a': "activate_handler env_a activate_ev (worker_start [])
       = activate_handler env_a (activate_ev\<lparr>request := req_b\<rparr>) (worker_start [])"
    by blast
  from b 2 have b': "delivered env_a fetch_ev_a (worker_start [])
        (fetch_handler env_a fetch_ev_a (worker_start []))
       = delivered env_a fetch_ev_a' (worker_start [])
        (fetch_handler env_a fetch_ev_a' (worker_start []))"
    by blast
  from c 3 have c': "fetch_handler env_a fetch_ev_a (worker_start [])
       = fetch_handler env_a (fetch_ev_a\<lparr>ev_type := ''sync''\<rparr>) (worker_start [])"
    by blast
  from 1 2 3 a' b' c' show ?thesis by blast
qed

end
